theory Spec2Isabelle
  imports Complex_Main "HOL-Library.Word" "HOL-Library.AList"
begin

section \<open>JavaScript values\<close>

text \<open>
  A JavaScript string is a sequence of 16-bit code units. A literal of the source is
  written \<open>js ''...''\<close>.
\<close>

type_synonym jsstring = "16 word list"

definition js :: "string \<Rightarrow> jsstring" where
  "js s = map of_char s"

text \<open>
  The values that a YAML or JSON loader produces, and \<open>undefined\<close>. An object is a
  plain one (its prototype is \<open>Object.prototype\<close>), given by the list of its own
  properties in enumeration order; an array is the list of its elements. A number is a
  finite one, given by its value; \<open>NaN\<close> and the infinities, which JSON cannot write,
  are left out.
\<close>

datatype jsval =
    JUndefined
  | JNull
  | JBool bool
  | JNum rat
  | JStr jsstring
  | JArr "jsval list"
  | JObj "(jsstring \<times> jsval) list"

datatype exn = Error jsstring | TypeError

text \<open>\<open>!v\<close> is \<open>\<not> truthy v\<close>.\<close>

fun truthy :: "jsval \<Rightarrow> bool" where
  "truthy JUndefined = False"
| "truthy JNull = False"
| "truthy (JBool b) = b"
| "truthy (JNum n) = (n \<noteq> 0)"
| "truthy (JStr s) = (s \<noteq> [])"
| "truthy (JArr xs) = True"
| "truthy (JObj kvs) = True"

text \<open>
  \<open>v.k\<close> for a value \<open>v\<close> that is neither \<open>null\<close> nor \<open>undefined\<close>: the own property
  of an object, \<open>undefined\<close> otherwise. The names that the program reads (\<open>type\<close>,
  \<open>properties\<close>, \<open>required\<close>, \<open>description\<close>, \<open>items\<close>) are no built-in members of
  strings, numbers, booleans, arrays or objects. Where a validator reads a field of a
  value under the name of a member of \<open>Object.prototype\<close>, the value gives the
  inherited function; the validators below treat a function as they treat
  \<open>undefined\<close>: \<open>z.any()\<close> accepts it and the others reject it.
\<close>

fun member :: "jsval \<Rightarrow> jsstring \<Rightarrow> jsval" where
  "member (JObj kvs) k = (case map_of kvs k of Some v \<Rightarrow> v | None \<Rightarrow> JUndefined)"
| "member v k = JUndefined"

text \<open>\<open>v.k\<close> for any \<open>v\<close>: reading a property of \<open>null\<close> or \<open>undefined\<close> throws.\<close>

definition getProp :: "jsval \<Rightarrow> jsstring \<Rightarrow> exn + jsval" where
  "getProp v k = (if v = JNull \<or> v = JUndefined then Inl TypeError else Inr (member v k))"

fun isArray :: "jsval \<Rightarrow> bool" where
  "isArray (JArr xs) = True"
| "isArray v = False"

fun elements :: "jsval \<Rightarrow> jsval list" where
  "elements (JArr xs) = xs"
| "elements v = []"

text \<open>The decimal form of an array index, as a property name.\<close>

fun decimal :: "nat \<Rightarrow> jsstring" where
  "decimal n = (if n < 10 then [of_nat (48 + n)]
                else decimal (n div 10) @ [of_nat (48 + n mod 10)])"

declare decimal.simps [simp del]

text \<open>\<open>Object.entries(v)\<close> for a truthy \<open>v\<close>.\<close>

fun objectEntries :: "jsval \<Rightarrow> (jsstring \<times> jsval) list" where
  "objectEntries (JObj kvs) = kvs"
| "objectEntries (JArr xs) = zip (map decimal [0..<length xs]) xs"
| "objectEntries (JStr s) = zip (map decimal [0..<length s]) (map (\<lambda>c. JStr [c]) s)"
| "objectEntries v = []"

section \<open>Validators of the zod library\<close>

text \<open>
  The validators that the program builds with \<open>z.any()\<close>, \<open>z.string()\<close>, \<open>z.number()\<close>,
  \<open>z.boolean()\<close>, \<open>z.array(e)\<close> and \<open>z.object(shape)\<close>. The last component is the
  validator's \<open>description\<close>, \<open>None\<close> when it is \<open>undefined\<close>.
\<close>

datatype zod =
    ZodAny "jsval option"
  | ZodString "jsval option"
  | ZodNumber "jsval option"
  | ZodBoolean "jsval option"
  | ZodArray zod "jsval option"
  | ZodObject "(jsstring \<times> zod) list" "jsval option"

fun zodDescription :: "zod \<Rightarrow> jsval option" where
  "zodDescription (ZodAny d) = d"
| "zodDescription (ZodString d) = d"
| "zodDescription (ZodNumber d) = d"
| "zodDescription (ZodBoolean d) = d"
| "zodDescription (ZodArray e d) = d"
| "zodDescription (ZodObject shape d) = d"

text \<open>\<open>s.describe(d)\<close>: the same validator with the description \<open>d\<close>.\<close>

fun describe :: "zod \<Rightarrow> jsval \<Rightarrow> zod" where
  "describe (ZodAny _) d = ZodAny (Some d)"
| "describe (ZodString _) d = ZodString (Some d)"
| "describe (ZodNumber _) d = ZodNumber (Some d)"
| "describe (ZodBoolean _) d = ZodBoolean (Some d)"
| "describe (ZodArray e _) d = ZodArray e (Some d)"
| "describe (ZodObject shape _) d = ZodObject shape (Some d)"

text \<open>
  Whether the validator accepts a value (\<open>s.safeParse(v).success\<close>). The zod library is
  no part of the repository; this is the behaviour that it documents: \<open>z.any()\<close> accepts every value,
  \<open>undefined\<close> too; a primitive validator accepts the values of its type; \<open>z.array(e)\<close>
  accepts the arrays whose elements \<open>e\<close> accepts; \<open>z.object(shape)\<close> accepts the objects
  \<open>v\<close> such that every key \<open>k\<close> of the shape has \<open>v[k]\<close> accepted by its validator,
  \<open>undefined\<close> standing for a key that \<open>v\<close> lacks, and ignores the other keys of \<open>v\<close>.
\<close>

fun accepts :: "zod \<Rightarrow> jsval \<Rightarrow> bool" where
  "accepts (ZodAny d) v = True"
| "accepts (ZodString d) v = (case v of JStr s \<Rightarrow> True | _ \<Rightarrow> False)"
| "accepts (ZodNumber d) v = (case v of JNum n \<Rightarrow> True | _ \<Rightarrow> False)"
| "accepts (ZodBoolean d) v = (case v of JBool b \<Rightarrow> True | _ \<Rightarrow> False)"
| "accepts (ZodArray e d) v = (case v of JArr xs \<Rightarrow> list_all (accepts e) xs | _ \<Rightarrow> False)"
| "accepts (ZodObject shape d) v =
     (case v of JObj kvs \<Rightarrow> list_all (\<lambda>(k, f). accepts f (member v k)) shape | _ \<Rightarrow> False)"

section \<open>The schema translator\<close>

text \<open>
  \<open>shape[key] = fieldSchema\<close> on the shape, a plain object created empty (line 105):
  the entry of the name is replaced where it stands, or added at the end. The name
  \<open>__proto__\<close> is the accessor of \<open>Object.prototype\<close>: assigning a validator to it
  sets the prototype of the shape and adds no property, so that the field is no key of
  the compiled object. The prototype itself is not modelled, nor what later reads and
  assignments find on it; the statements about declared fields are made for schemas
  that declare no field of this name.
\<close>

definition assignField ::
  "jsstring \<Rightarrow> zod \<Rightarrow> (jsstring \<times> zod) list \<Rightarrow> (jsstring \<times> zod) list" where
  "assignField key fieldSchema shape =
     (if key = js ''__proto__'' then shape else AList.update key fieldSchema shape)"

text \<open>
  The loop over \<open>schema.required\<close> (Agent.ts, lines 118 to 122), whose elements are
  strings by the cast of line 117: for a field name that the shape has as its own
  property, \<open>shape[field] = shape[field]\<close> assigns the entry to itself. For another name
  the model leaves the shape as it is. In the source the name of a member of
  \<open>Object.prototype\<close> other than \<open>__proto__\<close> (\<open>toString\<close>, \<open>constructor\<close>, ...) reads
  the inherited function and makes it an own property of the shape, a key that holds
  no validator; the model covers the lists \<open>required\<close> without such a name that the
  properties do not declare.
\<close>

fun requiredForEach :: "jsval list \<Rightarrow> (jsstring \<times> zod) list \<Rightarrow> (jsstring \<times> zod) list" where
  "requiredForEach [] shape = shape"
| "requiredForEach (field # rest) shape =
     requiredForEach rest
       (case field of
          JStr k \<Rightarrow> (case map_of shape k of
                       Some f \<Rightarrow> assignField k f shape
                     | None \<Rightarrow> shape)
        | _ \<Rightarrow> shape)"

text \<open>\<open>if (d) s = s.describe(d)\<close>, as a value.\<close>

definition describeIf :: "jsval \<Rightarrow> zod \<Rightarrow> zod" where
  "describeIf d s = (if truthy d then describe s d else s)"

text \<open>
  The loop over \<open>Object.entries(schema.properties)\<close> (lines 107 to 113), with the shape
  built so far; \<open>f\<close> is the translator that the body calls on each value. An exception
  leaves the loop.
\<close>

fun forEachProperty ::
  "(jsval \<Rightarrow> exn + zod) \<Rightarrow> (jsstring \<times> jsval) list \<Rightarrow> (jsstring \<times> zod) list
     \<Rightarrow> exn + (jsstring \<times> zod) list" where
  "forEachProperty f [] shape = Inr shape"
| "forEachProperty f ((key, value) # rest) shape =
     (case f value of
        Inl e \<Rightarrow> Inl e
      | Inr fieldSchema \<Rightarrow>
          (case getProp value (js ''description'') of
             Inl e \<Rightarrow> Inl e
           | Inr d \<Rightarrow> forEachProperty f rest (assignField key (describeIf d fieldSchema) shape)))"

lemma forEachProperty_cong [fundef_cong]:
  "es = es' \<Longrightarrow> (\<And>k v. (k, v) \<in> set es' \<Longrightarrow> f v = g v) \<Longrightarrow> shape = shape'
     \<Longrightarrow> forEachProperty f es shape = forEachProperty g es' shape'"
proof (induction es' arbitrary: es shape shape')
  case Nil
  then show ?case by simp
next
  case (Cons e es')
  obtain k v where e: "e = (k, v)" by (cases e)
  have fv: "f v = g v" using Cons.prems(2) [of k v] e by simp
  have "f v' = g v'" if "(k', v') \<in> set es'" for k' v'
    using Cons.prems(2) [of k' v'] that by simp
  then have rest: "forEachProperty f es' sh = forEachProperty g es' sh" for sh
    using Cons.IH [of es' sh sh] by blast
  show ?case using Cons.prems(1,3) e fv rest
    by (simp split: sum.splits)
qed

lemma size_member: "member s k \<noteq> JUndefined \<Longrightarrow> size (member s k) < size s"
proof (cases s)
  case (JObj kvs)
  assume m: "member s k \<noteq> JUndefined"
  then obtain v where v: "map_of kvs k = Some v" "member s k = v"
    using JObj by (cases "map_of kvs k") auto
  then have "(k, v) \<in> set kvs" by (simp add: map_of_SomeD)
  then have "size v < size_list (size_prod (\<lambda>x. 0) size) kvs"
    by (induction kvs) auto
  then show ?thesis using JObj v by simp
qed auto

lemma size_truthy_member: "truthy (member s k) \<Longrightarrow> size (member s k) < size s"
  by (rule size_member) auto

lemma size_objectEntries: "(k, v) \<in> set (objectEntries p) \<Longrightarrow> size v \<le> size p"
proof (cases p)
  case (JObj kvs)
  assume "(k, v) \<in> set (objectEntries p)"
  then have "(k, v) \<in> set kvs" using JObj by simp
  then have "size v \<le> size_list (size_prod (\<lambda>x. 0) size) kvs"
    by (induction kvs) auto
  then show ?thesis using JObj by simp
next
  case (JArr xs)
  assume "(k, v) \<in> set (objectEntries p)"
  then have "v \<in> set xs" using JArr by (auto dest: set_zip_rightD)
  then have "size v \<le> size_list size xs"
    by (induction xs) auto
  then show ?thesis using JArr by simp
next
  case (JStr s)
  assume "(k, v) \<in> set (objectEntries p)"
  then have "v \<in> set (map (\<lambda>c. JStr [c]) s)" using JStr by (auto dest: set_zip_rightD)
  then show ?thesis by auto
qed auto

text \<open>
  \<open>jsonSchemaToZod\<close> (Agent.ts, lines 100 to 156). After the first test \<open>schema\<close> is
  truthy, so reading its properties does not throw. The \<open>switch\<close> compares with \<open>===\<close>:
  a case is taken when \<open>schema.type\<close> is that very string.
\<close>

function jsonSchemaToZod :: "jsval \<Rightarrow> exn + zod" where
  "jsonSchemaToZod schema =
     (if \<not> truthy schema \<or> \<not> truthy (member schema (js ''type'')) then Inr (ZodAny None)
      else if member schema (js ''type'') = JStr (js ''object'') then
        (case (if truthy (member schema (js ''properties''))
               then forEachProperty jsonSchemaToZod
                      (objectEntries (member schema (js ''properties''))) []
               else Inr []) of
           Inl e \<Rightarrow> Inl e
         | Inr shape \<Rightarrow>
             Inr (describeIf (member schema (js ''description''))
                    (if truthy (member schema (js ''required''))
                        \<and> isArray (member schema (js ''required''))
                     then ZodObject
                            (requiredForEach (elements (member schema (js ''required''))) shape)
                            None
                     else ZodObject shape None)))
      else if member schema (js ''type'') = JStr (js ''string'') then
        Inr (describeIf (member schema (js ''description'')) (ZodString None))
      else if member schema (js ''type'') = JStr (js ''number'') then
        Inr (describeIf (member schema (js ''description'')) (ZodNumber None))
      else if member schema (js ''type'') = JStr (js ''boolean'') then
        Inr (describeIf (member schema (js ''description'')) (ZodBoolean None))
      else if member schema (js ''type'') = JStr (js ''array'') then
        (case (if truthy (member schema (js ''items''))
               then jsonSchemaToZod (member schema (js ''items''))
               else Inr (ZodAny None)) of
           Inl e \<Rightarrow> Inl e
         | Inr element \<Rightarrow>
             Inr (describeIf (member schema (js ''description'')) (ZodArray element None)))
      else Inr (ZodAny None))"
  by pat_completeness auto

lemma jsonSchemaToZod_rel_size: "jsonSchemaToZod_rel t schema \<Longrightarrow> size t < size schema"
proof (induction rule: jsonSchemaToZod_rel.induct)
  case (1 schema k v)
  then show ?case
    using size_objectEntries [of k v "member schema (js ''properties'')"]
      size_truthy_member [of schema "js ''properties''"] by simp
next
  case (2 schema)
  then show ?case using size_truthy_member [of schema "js ''items''"] by simp
qed

termination jsonSchemaToZod
proof (relation "measure size", goal_cases)
  case 1
  show ?case by simp
next
  case (2 schema k v)
  then show ?case
    using size_objectEntries [of k v "member schema (js ''properties'')"]
      size_truthy_member [of schema "js ''properties''"] by simp
next
  case (3 schema)
  then show ?case using size_truthy_member [of schema "js ''items''"] by simp
qed

declare jsonSchemaToZod.simps [simp del]

section \<open>Agent construction\<close>

text \<open>
  The constructor's options (lines 9 to 12): two optional strings, \<open>None\<close> for one
  that is not given.
\<close>

record AgentOptions =
  agentName :: "jsstring option"
  agentConfigPath :: "jsstring option"

text \<open>
  The truth value of an optional string: it is given and not empty. Where the model
  reads the string itself with \<open>the\<close>, this test has succeeded.
\<close>

fun truthyString :: "jsstring option \<Rightarrow> bool" where
  "truthyString None = False"
| "truthyString (Some s) = (s \<noteq> [])"

text \<open>The fields of a loaded agent definition that the constructor reads.\<close>

record AgentDefinition =
  name :: jsstring
  description :: jsstring
  system_prompt :: jsstring
  model :: jsstring
  client :: jsstring
  dynamic_variables :: jsval
  output_schema :: jsval

text \<open>
  Modelled from the spec: the classes \<open>AnthropicClient\<close>, \<open>FireworkClient\<close> and
  \<open>BaseAgent\<close> are not among the sources. A model client "holds its own provider
  credentials and default request parameters", as \<open>OpenAIClient\<close> (OpenAiClient.ts,
  lines 12 to 25) does, whose constructor stores its arguments; the agent runtime is
  composed of the definition's name, description, prompt template and dynamic variables,
  the client and the compiled schema (\<open>None\<close> for \<open>null\<close>). A client is the value of
  \<open>new C(apiKey, model)\<close>, and no constructor throws.
\<close>

datatype ModelClient =
    OpenAIClient jsstring jsstring
  | AnthropicClient jsstring jsstring
  | FireworkClient jsstring jsstring

datatype BaseAgent = BaseAgent jsstring jsstring jsstring jsval ModelClient "zod option"

datatype Agent = Agent BaseAgent

text \<open>
  What the constructor takes from outside: the two loaders of the agents registry
  (not among the sources), which return a definition or throw, and the process
  environment \<open>process.env\<close>.
\<close>

record Host =
  loadAgentFromFile :: "jsstring \<Rightarrow> exn + AgentDefinition"
  loadAgentDefinition :: "jsstring \<Rightarrow> exn + AgentDefinition"
  process_env :: "jsstring \<Rightarrow> jsstring option"

text \<open>Lines 18 to 27: the definition is resolved.\<close>

definition resolveAgentDef :: "Host \<Rightarrow> AgentOptions \<Rightarrow> exn + AgentDefinition" where
  "resolveAgentDef host options =
     (if truthyString (agentConfigPath options) then
        loadAgentFromFile host (the (agentConfigPath options))
      else if truthyString (agentName options) then
        loadAgentDefinition host (the (agentName options))
      else Inl (Error (js ''You must provide either agentName or agentConfigPath'')))"

text \<open>Lines 29 to 47: the model client is selected.\<close>

definition selectModelClient ::
  "(jsstring \<Rightarrow> jsstring option) \<Rightarrow> AgentDefinition \<Rightarrow> exn + ModelClient" where
  "selectModelClient env agentDef =
     (if client agentDef = js ''openai'' then
        (if \<not> truthyString (env (js ''OPENAI_API_KEY''))
         then Inl (Error (js ''OPENAI_API_KEY not set''))
         else Inr (OpenAIClient (the (env (js ''OPENAI_API_KEY''))) (model agentDef)))
      else if client agentDef = js ''anthropic'' then
        (if \<not> truthyString (env (js ''ANTHROPIC_API_KEY''))
         then Inl (Error (js ''ANTHROPIC_API_KEY not set''))
         else Inr (AnthropicClient (the (env (js ''ANTHROPIC_API_KEY''))) (model agentDef)))
      else if client agentDef = js ''fireworks'' then
        (if \<not> truthyString (env (js ''FIREWORKS_API_KEY''))
         then Inl (Error (js ''FIREWORKS_API_KEY not set''))
         else Inr (FireworkClient (the (env (js ''FIREWORKS_API_KEY''))) (model agentDef)))
      else Inl (Error (js ''Unsupported model client: '' @ client agentDef)))"

text \<open>Lines 49 to 57: the output schema is compiled, and an exception is replaced.\<close>

definition convertOutputSchema :: "AgentDefinition \<Rightarrow> exn + zod option" where
  "convertOutputSchema agentDef =
     (if truthy (output_schema agentDef) then
        (case jsonSchemaToZod (output_schema agentDef) of
           Inl e \<Rightarrow> Inl (Error (js ''Failed to convert output schema to Zod schema''))
         | Inr outputSchema \<Rightarrow> Inr (Some outputSchema))
      else Inr None)"

text \<open>The constructor of \<open>Agent\<close> (lines 17 to 69).\<close>

definition Agent_constructor :: "Host \<Rightarrow> AgentOptions \<Rightarrow> exn + Agent" where
  "Agent_constructor host options =
     (case resolveAgentDef host options of
        Inl e \<Rightarrow> Inl e
      | Inr agentDef \<Rightarrow>
          (case selectModelClient (process_env host) agentDef of
             Inl e \<Rightarrow> Inl e
           | Inr modelClient \<Rightarrow>
               (case convertOutputSchema agentDef of
                  Inl e \<Rightarrow> Inl e
                | Inr outputSchema \<Rightarrow>
                    Inr (Agent (BaseAgent (name agentDef) (description agentDef)
                           (system_prompt agentDef)
                           (if truthy (dynamic_variables agentDef)
                            then dynamic_variables agentDef else JObj [])
                           modelClient outputSchema)))))"

section \<open>The get-tweets command\<close>

text \<open>\<open>xs.join(sep)\<close> and \<open>s.startsWith(p)\<close> on strings.\<close>

fun join :: "jsstring \<Rightarrow> jsstring list \<Rightarrow> jsstring" where
  "join sep [] = []"
| "join sep [x] = x"
| "join sep (x # y # ys) = x @ sep @ join sep (y # ys)"

definition startsWith :: "jsstring \<Rightarrow> jsstring \<Rightarrow> bool" where
  "startsWith s p = (take (length p) s = p)"

text \<open>The line feed, and the two signs that open an output: U+274C and U+1F4DD.\<close>

definition lineFeed :: jsstring where
  "lineFeed = [0x000A]"

definition crossMark :: jsstring where
  "crossMark = [0x274C]"

definition memo :: jsstring where
  "memo = [0xD83D, 0xDCDD]"

record CommandArgs =
  username :: jsval
  limit :: jsval

record CommandResult =
  output' :: jsstring

text \<open>
  The handler of \<open>get-tweets\<close> (part_001, lines 26 to 38) over the tweet fetch
  \<open>getTweets\<close> (not among the sources), which returns a list of strings or throws;
  \<open>Inl\<close> holds the thrown value as the template literal renders it.
\<close>

definition handler ::
  "(jsval \<Rightarrow> jsval \<Rightarrow> jsstring + jsstring list) \<Rightarrow> CommandArgs \<Rightarrow> CommandResult" where
  "handler getTweets args =
     (case getTweets (username args) (limit args) of
        Inr result \<Rightarrow>
          (let formattedResult = join lineFeed result
           in \<lparr>output' = (if startsWith formattedResult (js ''Error'')
                          then crossMark @ js '' '' @ formattedResult
                          else memo @ js '' '' @ formattedResult)\<rparr>)
      | Inl error \<Rightarrow> \<lparr>output' = crossMark @ js '' Error fetching tweets: '' @ error\<rparr>)"

section \<open>Vocabulary of the statements\<close>

text \<open>The \<open>typeof\<close> operator.\<close>

fun typeof :: "jsval \<Rightarrow> jsstring" where
  "typeof JUndefined = js ''undefined''"
| "typeof JNull = js ''object''"
| "typeof (JBool b) = js ''boolean''"
| "typeof (JNum n) = js ''number''"
| "typeof (JStr s) = js ''string''"
| "typeof (JArr xs) = js ''object''"
| "typeof (JObj kvs) = js ''object''"

text \<open>The primitive validator of a kind, with no description.\<close>

definition primitive :: "jsstring \<Rightarrow> zod" where
  "primitive tag = (if tag = js ''string'' then ZodString None
                    else if tag = js ''number'' then ZodNumber None
                    else ZodBoolean None)"

text \<open>The environment variable that holds the credential of a supported provider.\<close>

definition credentialOf :: "jsstring \<Rightarrow> jsstring" where
  "credentialOf provider =
     (if provider = js ''openai'' then js ''OPENAI_API_KEY''
      else if provider = js ''anthropic'' then js ''ANTHROPIC_API_KEY''
      else js ''FIREWORKS_API_KEY'')"

text \<open>The messages of lines 26 and 55.\<close>

definition optionsMissing :: jsstring where
  "optionsMissing = js ''You must provide either agentName or agentConfigPath''"

definition schemaFailed :: jsstring where
  "schemaFailed = js ''Failed to convert output schema to Zod schema''"

text \<open>
  A position in a schema and in the validator compiled from it: a path of steps into a
  declared field of an object node or into the items of an array node. The field of a
  name is the last entry under that name, the one whose assignment to \<open>shape[key]\<close>
  stays; the names of an object are distinct, so that it is the entry of that name.
\<close>

datatype step = Property jsstring | Items

fun schemaNode :: "jsval \<Rightarrow> step list \<Rightarrow> jsval option" where
  "schemaNode schema [] = Some schema"
| "schemaNode schema (Property key # path) =
     (if member schema (js ''type'') = JStr (js ''object'')
         \<and> truthy (member schema (js ''properties''))
      then (case map_of (rev (objectEntries (member schema (js ''properties'')))) key of
              Some value \<Rightarrow> schemaNode value path
            | None \<Rightarrow> None)
      else None)"
| "schemaNode schema (Items # path) =
     (if member schema (js ''type'') = JStr (js ''array'')
         \<and> truthy (member schema (js ''items''))
      then schemaNode (member schema (js ''items'')) path
      else None)"

fun zodNode :: "zod \<Rightarrow> step list \<Rightarrow> zod option" where
  "zodNode z [] = Some z"
| "zodNode (ZodObject shape d) (Property key # path) =
     (case map_of shape key of Some f \<Rightarrow> zodNode f path | None \<Rightarrow> None)"
| "zodNode (ZodArray element d) (Items # path) = zodNode element path"
| "zodNode z (s # path) = None"

text \<open>
  No object node that the translator visits declares a field named \<open>__proto__\<close>: the
  test follows the translator through the properties of the object nodes and the
  items of the array nodes.
\<close>

function plainFieldNames :: "jsval \<Rightarrow> bool" where
  "plainFieldNames schema =
     (if \<not> truthy schema \<or> \<not> truthy (member schema (js ''type'')) then True
      else if member schema (js ''type'') = JStr (js ''object'') then
        (if truthy (member schema (js ''properties''))
         then list_all (\<lambda>(key, value). key \<noteq> js ''__proto__'' \<and> plainFieldNames value)
                (objectEntries (member schema (js ''properties'')))
         else True)
      else if member schema (js ''type'') = JStr (js ''array'') then
        (if truthy (member schema (js ''items''))
         then plainFieldNames (member schema (js ''items''))
         else True)
      else True)"
  by pat_completeness auto

termination plainFieldNames
proof (relation "measure size", goal_cases)
  case 1
  show ?case by simp
next
  case (2 schema entry key "value")
  then have "(key, value) \<in> set (objectEntries (member schema (js ''properties'')))"
    by simp
  then show ?case
    using size_objectEntries [of key "value" "member schema (js ''properties'')"]
      size_truthy_member [of schema "js ''properties''"] 2 by simp
next
  case (3 schema)
  then show ?case using size_truthy_member [of schema "js ''items''"] by simp
qed

declare plainFieldNames.simps [simp del]

text \<open>A node with one of the five type tags, and a path that ends in a field.\<close>

definition recognised :: "jsval \<Rightarrow> bool" where
  "recognised node =
     (member node (js ''type'') \<in> {JStr (js ''object''), JStr (js ''string''),
        JStr (js ''number''), JStr (js ''boolean''), JStr (js ''array'')})"

fun isField :: "step list \<Rightarrow> bool" where
  "isField [] = False"
| "isField [Property key] = True"
| "isField [Items] = False"
| "isField (s # path) = isField path"

section \<open>Example data\<close>

definition person :: jsval where
  "person = JObj [(js ''type'', JStr (js ''object'')),
     (js ''properties'',
        JObj [(js ''name'', JObj [(js ''type'', JStr (js ''string''))]),
              (js ''nick'', JObj [(js ''type'', JStr (js ''string''))])]),
     (js ''required'', JArr [JStr (js ''name'')])]"

definition stringList :: jsval where
  "stringList = JObj [(js ''type'', JStr (js ''array'')),
                      (js ''items'', JObj [(js ''type'', JStr (js ''string''))])]"

definition nullField :: jsval where
  "nullField = JObj [(js ''type'', JStr (js ''object'')),
                     (js ''properties'', JObj [(js ''count'', JNull)])]"

definition untypedItems :: jsval where
  "untypedItems = JObj [(js ''type'', JStr (js ''array'')),
                        (js ''items'', JObj [(js ''description'', JStr (js ''free text''))])]"

definition tagged :: jsval where
  "tagged = JObj [(js ''type'', JStr (js ''object'')),
     (js ''properties'',
        JObj [(js ''tags'',
                 JObj [(js ''type'', JStr (js ''array'')),
                       (js ''items'', JObj [(js ''type'', JStr (js ''string'')),
                                            (js ''description'', JStr (js ''one tag''))])]),
              (js ''extra'', JObj [(js ''description'', JStr (js ''anything''))])])]"

definition protoField :: jsval where
  "protoField = JObj [(js ''type'', JStr (js ''object'')),
     (js ''properties'',
        JObj [(js ''__proto__'', JObj [(js ''type'', JStr (js ''string'')),
                                       (js ''description'', JStr (js ''hidden''))]),
              (js ''shown'', JObj [(js ''type'', JStr (js ''number''))])])]"

definition summarizer :: AgentDefinition where
  "summarizer = \<lparr>name = js ''summarizer'', description = js ''Summarizes text'',
     system_prompt = js ''Summarize.'', model = js ''gpt-4o'', client = js ''openai'',
     dynamic_variables = JUndefined, output_schema = JUndefined\<rparr>"

definition fromFile :: AgentDefinition where
  "fromFile = summarizer\<lparr>name := js ''from-file''\<rparr>"

definition grokAgent :: AgentDefinition where
  "grokAgent = summarizer\<lparr>client := js ''grok''\<rparr>"

definition nullFieldAgent :: AgentDefinition where
  "nullFieldAgent = summarizer\<lparr>output_schema := nullField\<rparr>"

definition exampleEnv :: "jsstring \<Rightarrow> jsstring option" where
  "exampleEnv k = (if k = js ''OPENAI_API_KEY'' then Some (js ''sk-1'') else None)"

definition emptyEnv :: "jsstring \<Rightarrow> jsstring option" where
  "emptyEnv k = None"

definition exampleHost :: Host where
  "exampleHost = \<lparr>loadAgentFromFile = (\<lambda>path. Inr fromFile),
     loadAgentDefinition = (\<lambda>n. Inr summarizer), process_env = exampleEnv\<rparr>"

definition grokHost :: Host where
  "grokHost = exampleHost\<lparr>loadAgentDefinition := (\<lambda>n. Inr grokAgent)\<rparr>"

definition nullFieldHost :: Host where
  "nullFieldHost = exampleHost\<lparr>loadAgentDefinition := (\<lambda>n. Inr nullFieldAgent)\<rparr>"

definition noOptions :: AgentOptions where
  "noOptions = \<lparr>agentName = None, agentConfigPath = None\<rparr>"

definition byName :: AgentOptions where
  "byName = \<lparr>agentName = Some (js ''summarizer''), agentConfigPath = None\<rparr>"

definition bothOptions :: AgentOptions where
  "bothOptions = \<lparr>agentName = Some (js ''summarizer''),
     agentConfigPath = Some (js ''agents/summarizer.yaml'')\<rparr>"

definition fetchExample :: "jsval \<Rightarrow> jsval \<Rightarrow> jsstring + jsstring list" where
  "fetchExample user n =
     (if user = JStr (js ''nobody'') then Inl (js ''Error: no such user'')
      else if user = JStr (js ''private'') then Inr [js ''Error: protected account'']
      else Inr [js ''first tweet'', js ''second tweet''])"

section \<open>Auxiliary facts\<close>

lemma member_defined_truthy: "member s k \<noteq> JUndefined \<Longrightarrow> truthy s"
  by (cases s) auto

lemma tagged_truthy:
  assumes "member schema (js ''type'') = JStr tag" and "tag \<noteq> []"
  shows "truthy schema \<and> truthy (member schema (js ''type''))"
  using assms member_defined_truthy [of schema "js ''type''"] by simp

lemma requiredForEach_id: "requiredForEach names shape = shape"
proof (induction names arbitrary: shape)
  case Nil
  show ?case by simp
next
  case (Cons field rest)
  show ?case
    by (cases field) (auto simp: Cons.IH assignField_def AList.update_triv split: option.splits)
qed

lemma accepts_describeIf: "accepts (describeIf d z) v = accepts z v"
  by (cases z) (auto simp: describeIf_def)

lemma zodDescription_describeIf: "truthy d \<Longrightarrow> zodDescription (describeIf d z) = Some d"
  by (cases z) (auto simp: describeIf_def)

lemma zodNode_describeIf: "zodNode (describeIf d z) (s # path) = zodNode z (s # path)"
  by (cases z; cases s) (auto simp: describeIf_def)

lemma convertOutputSchema_result:
  "convertOutputSchema agentDef = Inl e \<Longrightarrow> e = Error schemaFailed"
  by (auto simp: convertOutputSchema_def schemaFailed_def split: if_splits sum.splits)

lemma startsWith_append: "startsWith (p @ s) p"
  by (simp add: startsWith_def)

lemma crossMark_not_memo:
  "\<not> startsWith (crossMark @ s) memo" "\<not> startsWith (memo @ s) crossMark"
  by (simp_all add: startsWith_def crossMark_def memo_def)

text \<open>The loop over the properties: what it leaves in the shape.\<close>

lemma forEachProperty_other:
  "forEachProperty f es sh = Inr shape \<Longrightarrow> k \<notin> fst ` set es \<Longrightarrow> map_of shape k = map_of sh k"
proof (induction es arbitrary: sh)
  case Nil
  then show ?case by simp
next
  case (Cons a es)
  obtain k' v' where a: "a = (k', v')" by (cases a)
  from Cons.prems a obtain fz d where
    step: "forEachProperty f es (assignField k' (describeIf d fz) sh) = Inr shape"
    by (auto split: sum.splits)
  have "k \<noteq> k'" "k \<notin> fst ` set es" using Cons.prems(2) a by auto
  then show ?case using Cons.IH [OF step] by (simp add: assignField_def update_conv')
qed

lemma forEachProperty_lookup:
  "forEachProperty f es sh = Inr shape \<Longrightarrow> map_of (rev es) k = Some v
     \<Longrightarrow> k \<noteq> js ''__proto__''
     \<Longrightarrow> \<exists>fz. f v = Inr fz \<and> v \<noteq> JNull \<and> v \<noteq> JUndefined
           \<and> map_of shape k = Some (describeIf (member v (js ''description'')) fz)"
proof (induction es arbitrary: sh)
  case Nil
  then show ?case by simp
next
  case (Cons a es)
  obtain k' v' where a: "a = (k', v')" by (cases a)
  from Cons.prems(1) a obtain fz d where
    fz: "f v' = Inr fz" and d: "getProp v' (js ''description'') = Inr d"
    and step: "forEachProperty f es (assignField k' (describeIf d fz) sh) = Inr shape"
    by (auto split: sum.splits)
  show ?case
  proof (cases "map_of (rev es) k")
    case (Some w)
    then have "map_of (rev es) k = Some v" using Cons.prems(2) by (simp add: map_add_def)
    then show ?thesis using Cons.IH [OF step _ Cons.prems(3)] by simp
  next
    case None
    then have here: "k = k'" "v = v'"
      using Cons.prems(2) a by (auto simp: map_add_def split: if_splits)
    have "k \<notin> fst ` set es" using None by (simp add: map_of_eq_None_iff)
    then have "map_of shape k = Some (describeIf d fz)"
      using forEachProperty_other [OF step] here Cons.prems(3)
      by (simp add: assignField_def update_conv')
    moreover have "v' \<noteq> JNull \<and> v' \<noteq> JUndefined \<and> d = member v' (js ''description'')"
      using d by (auto simp: getProp_def split: if_splits)
    ultimately show ?thesis using fz here by simp
  qed
qed

text \<open>The only exception of the loop and of the translator is the \<open>TypeError\<close>.\<close>

lemma forEachProperty_TypeError:
  "(\<And>k v e. (k, v) \<in> set es \<Longrightarrow> f v = Inl e \<Longrightarrow> e = TypeError)
     \<Longrightarrow> forEachProperty f es shape = Inl e \<Longrightarrow> e = TypeError"
proof (induction es arbitrary: shape)
  case Nil
  then show ?case by simp
next
  case (Cons a es)
  obtain k v where a: "a = (k, v)" by (cases a)
  have here: "f v = Inl e' \<Longrightarrow> e' = TypeError" for e'
    using Cons.prems(1) [of k v e'] a by simp
  have later: "forEachProperty f es sh = Inl e \<Longrightarrow> e = TypeError" for sh
    using Cons.IH [of sh] Cons.prems(1) by (meson list.set_intros(2))
  show ?case
    using Cons.prems(2) a here later
    by (auto simp: getProp_def split: sum.splits if_splits)
qed

lemma jsonSchemaToZod_TypeError: "jsonSchemaToZod schema = Inl e \<Longrightarrow> e = TypeError"
proof (induction schema arbitrary: e rule: jsonSchemaToZod.induct)
  case (1 schema)
  show ?case
  proof (cases "truthy schema \<and> truthy (member schema (js ''type''))")
    case False
    then show ?thesis using "1.prems" by (subst (asm) jsonSchemaToZod.simps) auto
  next
    case live: True
    show ?thesis
    proof (cases "member schema (js ''type'') = JStr (js ''object'')")
      case True
      have loop: "truthy (member schema (js ''properties''))
          \<and> forEachProperty jsonSchemaToZod
                (objectEntries (member schema (js ''properties''))) [] = Inl e"
        using "1.prems" live True
        by (subst (asm) jsonSchemaToZod.simps) (auto split: if_splits sum.splits)
      have "e' = TypeError"
        if "(k, v) \<in> set (objectEntries (member schema (js ''properties'')))"
          and "jsonSchemaToZod v = Inl e'" for k v e'
        using "1.IH"(1) [of k v e'] live True loop that by simp
      then show ?thesis
        using forEachProperty_TypeError [of _ jsonSchemaToZod _ e] loop by blast
    next
      case False
      show ?thesis
      proof (cases "member schema (js ''type'') = JStr (js ''array'')")
        case True
        have "truthy (member schema (js ''items''))
            \<and> jsonSchemaToZod (member schema (js ''items'')) = Inl e"
          using "1.prems" live True
          by (subst (asm) jsonSchemaToZod.simps) (auto simp: js_def split: if_splits sum.splits)
        then show ?thesis
          using "1.IH"(2) [of e] live True by (simp add: js_def)
      next
        case notArray: False
        show ?thesis
          using "1.prems" live False notArray
          by (subst (asm) jsonSchemaToZod.simps) (auto split: if_splits)
      qed
    qed
  qed
qed

text \<open>The test of the field names, at an object node and at an array node.\<close>

lemma plainFieldNames_property:
  assumes "plainFieldNames schema"
    and "member schema (js ''type'') = JStr (js ''object'')"
    and "truthy (member schema (js ''properties''))"
    and "map_of (rev (objectEntries (member schema (js ''properties'')))) key = Some value"
  shows "key \<noteq> js ''__proto__'' \<and> plainFieldNames value"
proof -
  have t: "truthy schema \<and> truthy (member schema (js ''type''))"
    using tagged_truthy [OF assms(2)] by (simp add: js_def)
  have "(key, value) \<in> set (objectEntries (member schema (js ''properties'')))"
    using map_of_SomeD [OF assms(4)] by simp
  moreover have "list_all (\<lambda>(key, value). key \<noteq> js ''__proto__'' \<and> plainFieldNames value)
      (objectEntries (member schema (js ''properties'')))"
    using assms(1,2,3) t by (subst (asm) plainFieldNames.simps) simp
  ultimately show ?thesis by (auto simp: list_all_iff)
qed

lemma plainFieldNames_items:
  assumes "plainFieldNames schema"
    and "member schema (js ''type'') = JStr (js ''array'')"
    and "truthy (member schema (js ''items''))"
  shows "plainFieldNames (member schema (js ''items''))"
proof -
  have t: "truthy schema \<and> truthy (member schema (js ''type''))"
    using tagged_truthy [OF assms(2)] by (simp add: js_def)
  show ?thesis
    using assms t by (subst (asm) plainFieldNames.simps) (simp add: js_def)
qed

text \<open>What the translator returns on an object, an array and a node of a known type.\<close>

lemma jsonSchemaToZod_object:
  assumes "jsonSchemaToZod schema = Inr z"
    and "member schema (js ''type'') = JStr (js ''object'')"
    and "truthy (member schema (js ''properties''))"
  shows "\<exists>shape d. z = ZodObject shape d
           \<and> forEachProperty jsonSchemaToZod
                (objectEntries (member schema (js ''properties''))) [] = Inr shape"
proof -
  have t: "truthy schema \<and> truthy (member schema (js ''type''))"
    using tagged_truthy [OF assms(2)] by (simp add: js_def)
  obtain shape where shape: "forEachProperty jsonSchemaToZod
      (objectEntries (member schema (js ''properties''))) [] = Inr shape"
    and z: "z = describeIf (member schema (js ''description'')) (ZodObject shape None)"
    using assms t
    by (subst (asm) jsonSchemaToZod.simps) (auto simp: requiredForEach_id split: sum.splits)
  show ?thesis using shape z by (auto simp: describeIf_def)
qed

lemma jsonSchemaToZod_array:
  assumes "jsonSchemaToZod schema = Inr z"
    and "member schema (js ''type'') = JStr (js ''array'')"
    and "truthy (member schema (js ''items''))"
  shows "\<exists>element d. z = ZodArray element d
           \<and> jsonSchemaToZod (member schema (js ''items'')) = Inr element"
proof -
  have t: "truthy schema \<and> truthy (member schema (js ''type''))"
    using tagged_truthy [OF assms(2)] by (simp add: js_def)
  obtain element where el: "jsonSchemaToZod (member schema (js ''items'')) = Inr element"
    and z: "z = describeIf (member schema (js ''description'')) (ZodArray element None)"
    using assms t
    by (subst (asm) jsonSchemaToZod.simps) (auto simp: js_def split: sum.splits)
  show ?thesis using el z by (auto simp: describeIf_def)
qed

lemma jsonSchemaToZod_recognised:
  assumes "jsonSchemaToZod schema = Inr z"
    and "recognised schema"
    and "truthy (member schema (js ''description''))"
  shows "zodDescription z = Some (member schema (js ''description''))"
proof -
  obtain tag where "member schema (js ''type'') = JStr tag" "tag \<noteq> []"
    using assms(2) by (auto simp: recognised_def js_def)
  then have t: "truthy schema \<and> truthy (member schema (js ''type''))"
    by (rule tagged_truthy)
  have "\<exists>z'. z = describeIf (member schema (js ''description'')) z'"
    using assms(1,2) t
    by (subst (asm) jsonSchemaToZod.simps) (auto simp: recognised_def split: sum.splits if_splits)
  then show ?thesis using assms(3) by (auto simp: zodDescription_describeIf)
qed

section \<open>The claims\<close>

subsection \<open>C1: fields that are not required\<close>

text \<open>
  C1 says that a field which \<open>required\<close> does not list may be omitted. The translator
  reads \<open>required\<close> and leaves the shape as it is, so every declared field of a known
  type stays mandatory. For the schema \<open>person\<close>, with the string fields \<open>name\<close> and
  \<open>nick\<close> of which only \<open>name\<close> is required, the compiled validator is the object of
  both strings: it rejects a value that has \<open>name\<close> and omits \<open>nick\<close>, and accepts the
  value that has both.
\<close>

theorem optional_field_rejected:
  "jsonSchemaToZod person
     = Inr (ZodObject [(js ''name'', ZodString None), (js ''nick'', ZodString None)] None)
   \<and> \<not> accepts (ZodObject [(js ''name'', ZodString None), (js ''nick'', ZodString None)] None)
         (JObj [(js ''name'', JStr (js ''Ada''))])
   \<and> accepts (ZodObject [(js ''name'', ZodString None), (js ''nick'', ZodString None)] None)
         (JObj [(js ''name'', JStr (js ''Ada'')), (js ''nick'', JStr (js ''A''))])"
  by (simp add: jsonSchemaToZod.simps person_def getProp_def describeIf_def assignField_def
      js_def)

subsection \<open>C2: the credential of a supported provider\<close>

text \<open>
  C2: for a definition whose provider is \<open>openai\<close>, \<open>anthropic\<close> or \<open>fireworks\<close>, when
  the provider's environment variable is set and not empty the client is selected,
  and the constructor can then fail only with the message of the schema conversion;
  when the variable is missing or empty the constructor fails with the error that names
  this variable, \<open><NAME> not set\<close>, and no client has been built.
\<close>

theorem provider_credential:
  assumes "resolveAgentDef host options = Inr agentDef"
    and "client agentDef \<in> {js ''openai'', js ''anthropic'', js ''fireworks''}"
  shows "if truthyString (process_env host (credentialOf (client agentDef)))
         then (\<exists>modelClient. selectModelClient (process_env host) agentDef = Inr modelClient)
              \<and> (\<forall>e. Agent_constructor host options = Inl e \<longrightarrow> e = Error schemaFailed)
         else selectModelClient (process_env host) agentDef
                = Inl (Error (credentialOf (client agentDef) @ js '' not set''))
              \<and> Agent_constructor host options
                = Inl (Error (credentialOf (client agentDef) @ js '' not set''))"
proof (cases "truthyString (process_env host (credentialOf (client agentDef)))")
  case True
  have sel: "\<exists>modelClient. selectModelClient (process_env host) agentDef = Inr modelClient"
    using assms(2) True by (auto simp: selectModelClient_def credentialOf_def js_def)
  then obtain modelClient where
    mc: "selectModelClient (process_env host) agentDef = Inr modelClient" ..
  have "e = Error schemaFailed" if "Agent_constructor host options = Inl e" for e
    using that assms(1) mc convertOutputSchema_result [of agentDef e]
    by (auto simp: Agent_constructor_def split: sum.splits)
  then show ?thesis using True sel by simp
next
  case False
  then have "selectModelClient (process_env host) agentDef
               = Inl (Error (credentialOf (client agentDef) @ js '' not set''))"
    using assms(2) by (auto simp: selectModelClient_def credentialOf_def js_def)
  then show ?thesis using False assms(1) by (simp add: Agent_constructor_def)
qed

text \<open>
  With \<open>OPENAI_API_KEY\<close> set the client of the agent \<open>summarizer\<close> is built; with an
  empty environment the construction by name fails with \<open>OPENAI_API_KEY not set\<close>.
\<close>

theorem provider_credential_witness:
  "selectModelClient exampleEnv summarizer = Inr (OpenAIClient (js ''sk-1'') (js ''gpt-4o''))
   \<and> Agent_constructor (exampleHost\<lparr>process_env := emptyEnv\<rparr>) byName
       = Inl (Error (js ''OPENAI_API_KEY not set''))"
proof -
  have r: "resolveAgentDef h byName = Inr summarizer"
    if "loadAgentDefinition h = (\<lambda>n. Inr summarizer)" for h
    using that by (simp add: resolveAgentDef_def byName_def js_def)
  have c: "client summarizer \<in> {js ''openai'', js ''anthropic'', js ''fireworks''}"
    by (simp add: summarizer_def)
  have k: "credentialOf (client summarizer) = js ''OPENAI_API_KEY''"
    by (simp add: summarizer_def credentialOf_def)
  have "Agent_constructor (exampleHost\<lparr>process_env := emptyEnv\<rparr>) byName
          = Inl (Error (js ''OPENAI_API_KEY not set''))"
    using provider_credential [OF r c, of "exampleHost\<lparr>process_env := emptyEnv\<rparr>"]
    by (simp add: k exampleHost_def emptyEnv_def js_def)
  moreover have "selectModelClient exampleEnv summarizer
                   = Inr (OpenAIClient (js ''sk-1'') (js ''gpt-4o''))"
    by (simp add: selectModelClient_def exampleEnv_def summarizer_def js_def)
  ultimately show ?thesis by simp
qed

subsection \<open>C3: a provider outside the enumeration\<close>

text \<open>
  C3: for a definition whose provider is none of \<open>openai\<close>, \<open>anthropic\<close> and
  \<open>fireworks\<close>, the selection of the client fails with \<open>Unsupported model client: \<close>
  followed by the provider, whatever the environment holds, and so does the
  constructor once the definition is loaded.
\<close>

theorem unsupported_provider:
  assumes "client agentDef \<notin> {js ''openai'', js ''anthropic'', js ''fireworks''}"
  shows "selectModelClient env agentDef
           = Inl (Error (js ''Unsupported model client: '' @ client agentDef))
         \<and> (resolveAgentDef host options = Inr agentDef \<longrightarrow>
              Agent_constructor host options
                = Inl (Error (js ''Unsupported model client: '' @ client agentDef)))"
proof -
  have "selectModelClient env' agentDef
          = Inl (Error (js ''Unsupported model client: '' @ client agentDef))" for env'
    using assms by (simp add: selectModelClient_def)
  then show ?thesis by (simp add: Agent_constructor_def)
qed

text \<open>
  The provider \<open>grok\<close>, with \<open>OPENAI_API_KEY\<close> set: the message is
  \<open>Unsupported model client: grok\<close>.
\<close>

theorem unsupported_provider_witness:
  "Agent_constructor grokHost byName = Inl (Error (js ''Unsupported model client: grok''))"
proof -
  have c: "client grokAgent \<notin> {js ''openai'', js ''anthropic'', js ''fireworks''}"
    by (simp add: grokAgent_def js_def)
  have r: "resolveAgentDef grokHost byName = Inr grokAgent"
    by (simp add: resolveAgentDef_def byName_def grokHost_def js_def)
  show ?thesis
    using unsupported_provider [OF c, of exampleEnv grokHost byName] r
    by (simp add: grokAgent_def js_def)
qed

subsection \<open>C4: the accept-anything fallback\<close>

text \<open>
  C4: for a schema that is \<open>null\<close>, \<open>undefined\<close> or otherwise falsy, that has no truthy
  \<open>type\<close>, or whose \<open>type\<close> is none of the five tags, the translator returns \<open>z.any()\<close>
  without an exception, and \<open>z.any()\<close> accepts every value.
\<close>

theorem jsonSchemaToZod_fallback_any:
  "\<not> truthy schema \<or> \<not> truthy (member schema (js ''type''))
     \<or> member schema (js ''type'') \<notin> {JStr (js ''object''), JStr (js ''string''),
          JStr (js ''number''), JStr (js ''boolean''), JStr (js ''array'')}
   \<Longrightarrow> jsonSchemaToZod schema = Inr (ZodAny None) \<and> (\<forall>v. accepts (ZodAny None) v)"
  by (auto simp: jsonSchemaToZod.simps)

text \<open>The schema \<open>null\<close> and the schema of the unknown type \<open>integer\<close>.\<close>

theorem jsonSchemaToZod_fallback_any_witness:
  "jsonSchemaToZod JNull = Inr (ZodAny None)
   \<and> jsonSchemaToZod (JObj [(js ''type'', JStr (js ''integer''))]) = Inr (ZodAny None)
   \<and> accepts (ZodAny None) (JNum 3)"
  using jsonSchemaToZod_fallback_any [of JNull]
    jsonSchemaToZod_fallback_any [of "JObj [(js ''type'', JStr (js ''integer''))]"]
  by (simp add: js_def)

subsection \<open>C5: the options of the constructor\<close>

text \<open>
  C5 as stated, that the constructor requires exactly one of the two options, fails:
  with both \<open>agentName\<close> and \<open>agentConfigPath\<close> given, the constructor loads the
  definition from the path and returns the agent.
\<close>

theorem both_options_counterexample:
  "Agent_constructor exampleHost bothOptions
     = Inr (Agent (BaseAgent (js ''from-file'') (js ''Summarizes text'') (js ''Summarize.'')
              (JObj []) (OpenAIClient (js ''sk-1'') (js ''gpt-4o'')) None))"
  by (simp add: Agent_constructor_def resolveAgentDef_def selectModelClient_def
      convertOutputSchema_def exampleHost_def bothOptions_def fromFile_def summarizer_def
      exampleEnv_def js_def)

text \<open>
  C5, amended: the constructor requires at least one of the two options, given and not
  empty. With neither it fails with the message of line 26, whatever the loaders and
  the environment are, so before any definition is loaded or provider selected. With
  \<open>agentConfigPath\<close> the definition is the one loaded from that path, whether
  \<open>agentName\<close> is given or not; with \<open>agentName\<close> alone it is the one of the registry.
\<close>

theorem construction_options:
  "(\<not> truthyString (agentConfigPath options) \<and> \<not> truthyString (agentName options) \<longrightarrow>
      Agent_constructor host options = Inl (Error optionsMissing))
   \<and> (agentConfigPath options = Some path \<and> path \<noteq> [] \<longrightarrow>
        resolveAgentDef host options = loadAgentFromFile host path)
   \<and> (\<not> truthyString (agentConfigPath options) \<and> agentName options = Some n \<and> n \<noteq> [] \<longrightarrow>
        resolveAgentDef host options = loadAgentDefinition host n)"
  by (auto simp: Agent_constructor_def resolveAgentDef_def optionsMissing_def)

text \<open>No option, both options, and the name alone.\<close>

theorem construction_options_witness:
  "Agent_constructor exampleHost noOptions = Inl (Error optionsMissing)
   \<and> resolveAgentDef exampleHost bothOptions = Inr fromFile
   \<and> resolveAgentDef exampleHost byName = Inr summarizer"
  using construction_options [where options = noOptions and host = exampleHost]
    construction_options [where options = bothOptions and host = exampleHost
      and path = "js ''agents/summarizer.yaml''"]
    construction_options [where options = byName and host = exampleHost
      and n = "js ''summarizer''"]
  by (simp add: noOptions_def bothOptions_def byName_def exampleHost_def js_def)

subsection \<open>C6: an exception of the schema translator\<close>

text \<open>
  C6: when the definition is loaded, the client is selected, the output schema is
  present (truthy) and its translation throws, the constructor fails with the one
  message \<open>Failed to convert output schema to Zod schema\<close>. This error is not the
  exception that was thrown, and its message is none of the three credential
  messages, not the message of the missing options, and no message of an unsupported
  provider.
\<close>

theorem schema_failure_wrapped:
  assumes "resolveAgentDef host options = Inr agentDef"
    and "selectModelClient (process_env host) agentDef = Inr modelClient"
    and "truthy (output_schema agentDef)"
    and "jsonSchemaToZod (output_schema agentDef) = Inl e"
  shows "Agent_constructor host options = Inl (Error schemaFailed)
         \<and> Error schemaFailed \<noteq> e
         \<and> schemaFailed \<notin> {js ''OPENAI_API_KEY not set'', js ''ANTHROPIC_API_KEY not set'',
              js ''FIREWORKS_API_KEY not set'', optionsMissing}
         \<and> (\<forall>c. schemaFailed \<noteq> js ''Unsupported model client: '' @ c)"
proof -
  have "Agent_constructor host options = Inl (Error schemaFailed)"
    using assms by (simp add: Agent_constructor_def convertOutputSchema_def schemaFailed_def)
  moreover have "Error schemaFailed \<noteq> e"
    using jsonSchemaToZod_TypeError [OF assms(4)] by simp
  moreover have "schemaFailed \<notin> {js ''OPENAI_API_KEY not set'',
      js ''ANTHROPIC_API_KEY not set'', js ''FIREWORKS_API_KEY not set'', optionsMissing}"
    by (simp add: schemaFailed_def optionsMissing_def js_def)
  moreover have "schemaFailed \<noteq> js ''Unsupported model client: '' @ c" for c
    by (simp add: schemaFailed_def js_def)
  ultimately show ?thesis by blast
qed

text \<open>
  The schema \<open>nullField\<close> declares the field \<open>count\<close> with the value \<open>null\<close>: reading
  its \<open>description\<close> throws.
\<close>

theorem schema_failure_wrapped_witness:
  "jsonSchemaToZod nullField = Inl TypeError
   \<and> Agent_constructor nullFieldHost byName = Inl (Error schemaFailed)"
proof -
  have r: "resolveAgentDef nullFieldHost byName = Inr nullFieldAgent"
    by (simp add: resolveAgentDef_def byName_def nullFieldHost_def js_def)
  have s: "selectModelClient (process_env nullFieldHost) nullFieldAgent
             = Inr (OpenAIClient (js ''sk-1'') (js ''gpt-4o''))"
    by (simp add: selectModelClient_def nullFieldHost_def exampleHost_def exampleEnv_def
        nullFieldAgent_def summarizer_def js_def)
  have t: "truthy (output_schema nullFieldAgent)"
    by (simp add: nullFieldAgent_def nullField_def)
  have e: "jsonSchemaToZod nullField = Inl TypeError"
    by (simp add: jsonSchemaToZod.simps nullField_def getProp_def js_def)
  then have e': "jsonSchemaToZod (output_schema nullFieldAgent) = Inl TypeError"
    by (simp add: nullFieldAgent_def)
  show ?thesis using schema_failure_wrapped [OF r s t e'] e by simp
qed

subsection \<open>C7: the primitive validators\<close>

text \<open>
  C7: for a schema whose \<open>type\<close> is \<open>string\<close>, \<open>number\<close> or \<open>boolean\<close>, the translator
  returns the primitive validator of that kind, with the description when there is
  one, and this validator accepts a value exactly when \<open>typeof\<close> of the value is the
  tag.
\<close>

theorem jsonSchemaToZod_primitive:
  assumes "member schema (js ''type'') = JStr tag"
    and "tag \<in> {js ''string'', js ''number'', js ''boolean''}"
  shows "\<exists>z. jsonSchemaToZod schema = Inr z
           \<and> z = describeIf (member schema (js ''description'')) (primitive tag)
           \<and> (\<forall>v. accepts z v \<longleftrightarrow> typeof v = tag)"
proof -
  have "tag \<noteq> []" using assms(2) by (auto simp: js_def)
  then have t: "truthy schema \<and> truthy (member schema (js ''type''))"
    using tagged_truthy [OF assms(1)] by simp
  have r: "jsonSchemaToZod schema
             = Inr (describeIf (member schema (js ''description'')) (primitive tag))"
    using assms t by (subst jsonSchemaToZod.simps) (auto simp: primitive_def js_def)
  have "accepts (primitive tag) v \<longleftrightarrow> typeof v = tag" for v
    using assms(2) by (cases v) (auto simp: primitive_def js_def)
  then show ?thesis using r by (simp add: accepts_describeIf)
qed

text \<open>A number with a description: it accepts 3 and rejects the string \<open>3\<close> and \<open>null\<close>.\<close>

theorem jsonSchemaToZod_primitive_witness:
  "jsonSchemaToZod (JObj [(js ''type'', JStr (js ''number'')),
                          (js ''description'', JStr (js ''how many''))])
     = Inr (ZodNumber (Some (JStr (js ''how many''))))
   \<and> accepts (ZodNumber (Some (JStr (js ''how many'')))) (JNum 3)
   \<and> \<not> accepts (ZodNumber (Some (JStr (js ''how many'')))) (JStr (js ''3''))
   \<and> \<not> accepts (ZodNumber (Some (JStr (js ''how many'')))) JNull"
  using jsonSchemaToZod_primitive
    [of "JObj [(js ''type'', JStr (js ''number'')),
               (js ''description'', JStr (js ''how many''))]" "js ''number''"]
  by (simp add: primitive_def describeIf_def js_def)

subsection \<open>C8: descriptions\<close>

text \<open>
  C8 as stated, that every node which carries a description has it on the
  corresponding node of the compiled validator, fails: the items of \<open>untypedItems\<close>
  carry the description \<open>free text\<close> and no type, and the validator compiled for them
  is \<open>z.any()\<close> without a description.
\<close>

theorem untyped_items_counterexample:
  "schemaNode untypedItems [Items] = Some (JObj [(js ''description'', JStr (js ''free text''))])
   \<and> jsonSchemaToZod untypedItems = Inr (ZodArray (ZodAny None) None)
   \<and> zodNode (ZodArray (ZodAny None) None) [Items] = Some (ZodAny None)
   \<and> zodDescription (ZodAny None) = None"
  by (simp add: jsonSchemaToZod.simps untypedItems_def describeIf_def js_def)

text \<open>
  A field named \<open>__proto__\<close> is no key of the compiled object, and its description is
  on no node of the validator: of the two fields of \<open>protoField\<close> only \<open>shown\<close> is
  compiled.
\<close>

lemma proto_field_dropped:
  "jsonSchemaToZod protoField = Inr (ZodObject [(js ''shown'', ZodNumber None)] None)
   \<and> \<not> plainFieldNames protoField"
  by (simp add: jsonSchemaToZod.simps plainFieldNames.simps protoField_def getProp_def
      describeIf_def assignField_def js_def)

text \<open>
  C8, amended: for a schema in which no object node declares a field named
  \<open>__proto__\<close>, when the translator returns a validator, every node of the schema that
  carries a truthy description (a string that is not empty) and that has one of the
  five type tags, or is a declared field of an object node whatever its type, has this
  description on the node of the validator at the same position.
\<close>

theorem description_attached:
  assumes "jsonSchemaToZod schema = Inr z"
    and "plainFieldNames schema"
    and "schemaNode schema path = Some node"
    and "truthy (member node (js ''description''))"
    and "recognised node \<or> isField path"
  shows "\<exists>compiled. zodNode z path = Some compiled
           \<and> zodDescription compiled = Some (member node (js ''description''))"
  using assms
proof (induction path arbitrary: schema z)
  case Nil
  then show ?case using jsonSchemaToZod_recognised [of schema z] by simp
next
  case (Cons s path)
  show ?case
  proof (cases s)
    case (Property key)
    from Cons.prems(3) Property obtain "value" where
      obj: "member schema (js ''type'') = JStr (js ''object'')"
        "truthy (member schema (js ''properties''))"
      and v: "map_of (rev (objectEntries (member schema (js ''properties'')))) key = Some value"
      and n: "schemaNode value path = Some node"
      by (auto split: if_splits option.splits)
    from plainFieldNames_property [OF Cons.prems(2) obj v] have
      key: "key \<noteq> js ''__proto__''" and plain: "plainFieldNames value"
      by simp_all
    from jsonSchemaToZod_object [OF Cons.prems(1) obj] obtain shape d where
      z: "z = ZodObject shape d"
      and loop: "forEachProperty jsonSchemaToZod
        (objectEntries (member schema (js ''properties''))) [] = Inr shape"
      by blast
    from forEachProperty_lookup [OF loop v key] obtain fz where
      fz: "jsonSchemaToZod value = Inr fz"
      and sh: "map_of shape key = Some (describeIf (member value (js ''description'')) fz)"
      by blast
    show ?thesis
    proof (cases path)
      case Nil
      then have "node = value" using n by simp
      then show ?thesis
        using Nil z sh Property Cons.prems(4) by (simp add: zodDescription_describeIf)
    next
      case (Cons s' path')
      then have "recognised node \<or> isField path" using Cons.prems(5) Property by simp
      from Cons.IH [OF fz plain n Cons.prems(4) this] show ?thesis
        using z sh Property Cons by (simp add: zodNode_describeIf)
    qed
  next
    case Items
    from Cons.prems(3) Items have
      arr: "member schema (js ''type'') = JStr (js ''array'')"
        "truthy (member schema (js ''items''))"
      and n: "schemaNode (member schema (js ''items'')) path = Some node"
      by (auto split: if_splits)
    from jsonSchemaToZod_array [OF Cons.prems(1) arr] obtain element d where
      z: "z = ZodArray element d"
      and el: "jsonSchemaToZod (member schema (js ''items'')) = Inr element"
      by blast
    have "recognised node \<or> isField path"
      using Cons.prems(5) Items by (cases path) auto
    from Cons.IH [OF el plainFieldNames_items [OF Cons.prems(2) arr] n Cons.prems(4) this]
    show ?thesis
      using z Items by simp
  qed
qed

text \<open>
  In \<open>tagged\<close>, which declares the fields \<open>tags\<close> and \<open>extra\<close>, the items of \<open>tags\<close> are
  strings described as \<open>one tag\<close>, and \<open>extra\<close> has a description and no type: both
  descriptions are on the compiled validator.
\<close>

theorem description_attached_witness:
  "plainFieldNames tagged
   \<and> jsonSchemaToZod tagged
     = Inr (ZodObject
              [(js ''tags'', ZodArray (ZodString (Some (JStr (js ''one tag'')))) None),
               (js ''extra'', ZodAny (Some (JStr (js ''anything''))))] None)
   \<and> (\<exists>compiled.
         zodNode (ZodObject
              [(js ''tags'', ZodArray (ZodString (Some (JStr (js ''one tag'')))) None),
               (js ''extra'', ZodAny (Some (JStr (js ''anything''))))] None)
           [Property (js ''tags''), Items] = Some compiled
         \<and> zodDescription compiled = Some (JStr (js ''one tag'')))"
proof -
  have c: "jsonSchemaToZod tagged
     = Inr (ZodObject
              [(js ''tags'', ZodArray (ZodString (Some (JStr (js ''one tag'')))) None),
               (js ''extra'', ZodAny (Some (JStr (js ''anything''))))] None)"
    by (simp add: jsonSchemaToZod.simps tagged_def getProp_def describeIf_def assignField_def
        js_def)
  have p: "plainFieldNames tagged"
    by (simp add: plainFieldNames.simps tagged_def js_def)
  have n: "schemaNode tagged [Property (js ''tags''), Items]
             = Some (JObj [(js ''type'', JStr (js ''string'')),
                           (js ''description'', JStr (js ''one tag''))])"
    by (simp add: tagged_def js_def)
  have t: "truthy (member (JObj [(js ''type'', JStr (js ''string'')),
                                 (js ''description'', JStr (js ''one tag''))])
                     (js ''description''))"
    by (simp add: js_def)
  have r: "recognised (JObj [(js ''type'', JStr (js ''string'')),
                             (js ''description'', JStr (js ''one tag''))])
           \<or> isField [Property (js ''tags''), Items]"
    by (simp add: recognised_def js_def)
  show ?thesis using description_attached [OF c p n t r] c p by (simp add: js_def)
qed

subsection \<open>C9: termination of the translator\<close>

text \<open>
  C9: the translator terminates on every schema. \<open>jsonSchemaToZod_rel t schema\<close> is the
  relation of its recursive calls, as its definition makes them: on the input \<open>schema\<close>
  it calls itself on \<open>t\<close>. This relation is well-founded, so no chain of calls goes on
  for ever; and a call is made only on the items of an array node or on a value of the
  properties of an object node, which is smaller than the input.
\<close>

theorem jsonSchemaToZod_terminates:
  "wfp jsonSchemaToZod_rel
   \<and> (jsonSchemaToZod_rel t schema \<longrightarrow>
        (t = member schema (js ''items'')
           \<or> t \<in> snd ` set (objectEntries (member schema (js ''properties''))))
        \<and> size t < size schema)"
proof -
  have "wfp jsonSchemaToZod_rel"
    using jsonSchemaToZod_rel_size by (rule wfp_if_convertible_to_nat)
  moreover have "t = member schema (js ''items'')
      \<or> t \<in> snd ` set (objectEntries (member schema (js ''properties'')))"
    if "jsonSchemaToZod_rel t schema"
    using that by (cases rule: jsonSchemaToZod_rel.cases) force+
  ultimately show ?thesis using jsonSchemaToZod_rel_size by blast
qed

text \<open>On the list of strings \<open>stringList\<close> the translator calls itself on the items.\<close>

theorem jsonSchemaToZod_terminates_witness:
  "jsonSchemaToZod_rel (JObj [(js ''type'', JStr (js ''string''))]) stringList
   \<and> size (JObj [(js ''type'', JStr (js ''string''))]) < size stringList
   \<and> jsonSchemaToZod stringList = Inr (ZodArray (ZodString None) None)"
proof -
  have "jsonSchemaToZod_rel (member stringList (js ''items'')) stringList"
    by (rule jsonSchemaToZod_rel.intros(2)) (simp_all add: stringList_def js_def)
  then have "jsonSchemaToZod_rel (JObj [(js ''type'', JStr (js ''string''))]) stringList"
    by (simp add: stringList_def js_def)
  moreover have "jsonSchemaToZod stringList = Inr (ZodArray (ZodString None) None)"
    by (simp add: jsonSchemaToZod.simps stringList_def describeIf_def js_def)
  ultimately show ?thesis
    using jsonSchemaToZod_terminates
      [where t = "JObj [(js ''type'', JStr (js ''string''))]" and schema = stringList]
    by simp
qed

subsection \<open>C10: the handler of get-tweets\<close>

text \<open>
  C10: the handler returns a result with a string output for every argument record and
  every behaviour of the fetch, and throws nothing. When the fetch throws, the output
  is the cross mark followed by \<open> Error fetching tweets: \<close> and the thrown value; when
  it returns, the output is the lines joined by line feeds, after the cross mark if
  they start with \<open>Error\<close> and after the memo sign otherwise. So the output begins with
  the cross mark in the first two cases and with the memo sign in the last, and never
  with both.
\<close>

theorem handler_output:
  "(getTweets (username args) (limit args) = Inl error \<longrightarrow>
      output' (handler getTweets args) = crossMark @ js '' Error fetching tweets: '' @ error)
   \<and> (getTweets (username args) (limit args) = Inr result \<longrightarrow>
        output' (handler getTweets args)
          = (if startsWith (join lineFeed result) (js ''Error'') then crossMark else memo)
              @ js '' '' @ join lineFeed result)
   \<and> ((\<exists>error. getTweets (username args) (limit args) = Inl error)
          \<or> (\<exists>result. getTweets (username args) (limit args) = Inr result
                \<and> startsWith (join lineFeed result) (js ''Error''))
        \<longrightarrow> startsWith (output' (handler getTweets args)) crossMark
            \<and> \<not> startsWith (output' (handler getTweets args)) memo)
   \<and> ((\<exists>result. getTweets (username args) (limit args) = Inr result
                \<and> \<not> startsWith (join lineFeed result) (js ''Error''))
        \<longrightarrow> startsWith (output' (handler getTweets args)) memo
            \<and> \<not> startsWith (output' (handler getTweets args)) crossMark)"
  by (auto simp: handler_def Let_def startsWith_append crossMark_not_memo)

text \<open>A fetch that throws, one that returns an error line, and one that returns tweets.\<close>

theorem handler_output_witness:
  "output' (handler fetchExample \<lparr>username = JStr (js ''nobody''), limit = JNum 20\<rparr>)
     = crossMark @ js '' Error fetching tweets: Error: no such user''
   \<and> output' (handler fetchExample \<lparr>username = JStr (js ''private''), limit = JNum 20\<rparr>)
     = crossMark @ js '' Error: protected account''
   \<and> output' (handler fetchExample \<lparr>username = JStr (js ''alice''), limit = JNum 20\<rparr>)
     = memo @ js '' first tweet'' @ lineFeed @ js ''second tweet''
   \<and> startsWith
        (output' (handler fetchExample \<lparr>username = JStr (js ''alice''), limit = JNum 20\<rparr>)) memo"
  using handler_output [where getTweets = fetchExample
      and args = "\<lparr>username = JStr (js ''nobody''), limit = JNum 20\<rparr>"
      and error = "js ''Error: no such user''"]
    handler_output [where getTweets = fetchExample
      and args = "\<lparr>username = JStr (js ''private''), limit = JNum 20\<rparr>"
      and result = "[js ''Error: protected account'']"]
    handler_output [where getTweets = fetchExample
      and args = "\<lparr>username = JStr (js ''alice''), limit = JNum 20\<rparr>"
      and result = "[js ''first tweet'', js ''second tweet'']"]
  by (simp add: fetchExample_def startsWith_def js_def lineFeed_def)

end
